theory Spec2Isabelle
  imports Main "HOL-Library.Sublist"
begin

section \<open>Values of the program\<close>

text \<open>
  The program handles calendar dates (\<^verbatim>\<open>datetime.date\<close>), timestamps
  (\<^verbatim>\<open>datetime.datetime\<close>, a date with a time of day), integers, strings and
  \<^verbatim>\<open>None\<close>. A timestamp is a date followed by hour, minute, second and microsecond.
\<close>

datatype date = Date nat nat nat

datatype datetime = Datetime date nat nat nat nat

text \<open>\<^verbatim>\<open>datetime.date()\<close>: the calendar date of a timestamp, its time of day dropped.\<close>

fun datetime_date :: "datetime \<Rightarrow> date" where
  "datetime_date (Datetime d h mi s us) = d"

text \<open>Python orders dates by (year, month, day) and timestamps by date, then time of day.\<close>

fun date_le :: "date \<Rightarrow> date \<Rightarrow> bool" where
  "date_le (Date y1 m1 d1) (Date y2 m2 d2) =
     (y1 < y2 \<or> (y1 = y2 \<and> (m1 < m2 \<or> (m1 = m2 \<and> d1 \<le> d2))))"

fun time_le :: "nat \<times> nat \<times> nat \<times> nat \<Rightarrow> nat \<times> nat \<times> nat \<times> nat \<Rightarrow> bool" where
  "time_le (h1, mi1, s1, us1) (h2, mi2, s2, us2) =
     (h1 < h2 \<or> (h1 = h2 \<and> (mi1 < mi2 \<or> (mi1 = mi2 \<and> (s1 < s2 \<or> (s1 = s2 \<and> us1 \<le> us2))))))"

fun datetime_le :: "datetime \<Rightarrow> datetime \<Rightarrow> bool" where
  "datetime_le (Datetime d1 h1 mi1 s1 us1) (Datetime d2 h2 mi2 s2 us2) =
     (if d1 = d2 then time_le (h1, mi1, s1, us1) (h2, mi2, s2, us2) else date_le d1 d2)"

text \<open>Python orders strings lexicographically by code point; a proper prefix comes first.\<close>

fun str_le :: "string \<Rightarrow> string \<Rightarrow> bool" where
  "str_le [] ys = True"
| "str_le (x # xs) [] = False"
| "str_le (x # xs) (y # ys) =
     ((of_char x :: nat) < of_char y \<or> (x = y \<and> str_le xs ys))"

datatype pyval =
    PyNone
  | PyInt int
  | PyStr string
  | PyDate date
  | PyDatetime datetime

text \<open>
  Truth value testing, as \<^verbatim>\<open>if x:\<close> does it: \<^verbatim>\<open>None\<close>, the integer 0 and the
  empty string are false; dates and timestamps are always true.
\<close>

fun truthy :: "pyval \<Rightarrow> bool" where
  "truthy PyNone = False"
| "truthy (PyInt n) = (n \<noteq> 0)"
| "truthy (PyStr s) = (s \<noteq> [])"
| "truthy (PyDate d) = True"
| "truthy (PyDatetime t) = True"

datatype error = UnsupportedCriterionError | TypeError

text \<open>
  The comparators of the \<^verbatim>\<open>operator\<close> module the program uses. \<^verbatim>\<open>==\<close> between
  values of different types is false; \<^verbatim>\<open>>=\<close> and \<^verbatim>\<open><=\<close> between values of
  different types, or on \<^verbatim>\<open>None\<close>, raise \<^verbatim>\<open>TypeError\<close>.
\<close>

definition operator_eq :: "pyval \<Rightarrow> pyval \<Rightarrow> error + bool" where
  "operator_eq a b = Inr (a = b)"

fun operator_le :: "pyval \<Rightarrow> pyval \<Rightarrow> error + bool" where
  "operator_le (PyInt a) (PyInt b) = Inr (a \<le> b)"
| "operator_le (PyStr a) (PyStr b) = Inr (str_le a b)"
| "operator_le (PyDate a) (PyDate b) = Inr (date_le a b)"
| "operator_le (PyDatetime a) (PyDatetime b) = Inr (datetime_le a b)"
| "operator_le _ _ = Inl TypeError"

fun operator_ge :: "pyval \<Rightarrow> pyval \<Rightarrow> error + bool" where
  "operator_ge (PyInt a) (PyInt b) = Inr (b \<le> a)"
| "operator_ge (PyStr a) (PyStr b) = Inr (str_le b a)"
| "operator_ge (PyDate a) (PyDate b) = Inr (date_le b a)"
| "operator_ge (PyDatetime a) (PyDatetime b) = Inr (datetime_le b a)"
| "operator_ge _ _ = Inl TypeError"

section \<open>helpers.py\<close>

text \<open>
  \<^verbatim>\<open>datetime_to_str\<close> is \<^verbatim>\<open>strftime(dt, "%Y-%m-%d")\<close>: the year in four digits,
  the month and the day in two, zero-filled, for the years 1 to 9999 that a Python
  timestamp can hold. The time of day is not printed.
\<close>

definition digit_char :: "nat \<Rightarrow> char" where
  "digit_char n = ''0123456789'' ! (n mod 10)"

definition two_digits :: "nat \<Rightarrow> string" where
  "two_digits n = [digit_char (n div 10), digit_char n]"

definition four_digits :: "nat \<Rightarrow> string" where
  "four_digits n =
     [digit_char (n div 1000), digit_char (n div 100), digit_char (n div 10), digit_char n]"

fun datetime_to_str :: "datetime \<Rightarrow> string" where
  "datetime_to_str (Datetime (Date y m d) h mi s us) =
     four_digits y @ ''-'' @ two_digits m @ ''-'' @ two_digits d"

section \<open>models.py\<close>

record CDCTrackingObject =
  date :: datetime
  state :: string
  death :: int
  deathIncrease :: int
  hospitalizedCumulative :: int
  hospitalizedCurrently :: int
  inIcuCurrently :: int
  negative :: int
  onVentilatorCumulative :: int
  onVentilatorCurrently :: int
  positive :: int
  totalTestResultsIncrease :: int
  totalTestsAntibody :: int
  totalTestsAntigen :: int
  totalTestsViral :: int

section \<open>filters.py\<close>

text \<open>
  The class of a filter decides its \<^verbatim>\<open>get\<close>: the base class \<^verbatim>\<open>AttributeFilter\<close>
  raises \<^verbatim>\<open>UnsupportedCriterionError\<close>, each subclass returns one attribute of the
  record. \<^verbatim>\<open>DateFilter.get\<close> returns \<^verbatim>\<open>covid_data.date.date()\<close>.
\<close>

datatype filter_class =
    AttributeFilter
  | DateFilter
  | StateFilter
  | HospitalizedFilter
  | IcuFilter
  | OnVentFilter
  | DeathFilter

text \<open>A filter object: its class, and the \<^verbatim>\<open>op\<close> and \<^verbatim>\<open>value\<close> given to \<^verbatim>\<open>__init__\<close>.\<close>

record attribute_filter =
  cls :: filter_class
  op :: "pyval \<Rightarrow> pyval \<Rightarrow> error + bool"
  val :: pyval

fun get :: "filter_class \<Rightarrow> CDCTrackingObject \<Rightarrow> error + pyval" where
  "get AttributeFilter covid_data = Inl UnsupportedCriterionError"
| "get DateFilter covid_data = Inr (PyDate (datetime_date (date covid_data)))"
| "get StateFilter covid_data = Inr (PyStr (state covid_data))"
| "get HospitalizedFilter covid_data = Inr (PyInt (hospitalizedCurrently covid_data))"
| "get IcuFilter covid_data = Inr (PyInt (inIcuCurrently covid_data))"
| "get OnVentFilter covid_data = Inr (PyInt (onVentilatorCurrently covid_data))"
| "get DeathFilter covid_data = Inr (PyInt (death covid_data))"

text \<open>\<^verbatim>\<open>__call__\<close>: \<^verbatim>\<open>self.op(self.get(covid_data), self.value)\<close>.\<close>

definition call :: "attribute_filter \<Rightarrow> CDCTrackingObject \<Rightarrow> error + bool" where
  "call self covid_data =
     (case get (cls self) covid_data of
        Inl e \<Rightarrow> Inl e
      | Inr a \<Rightarrow> op self a (val self))"

text \<open>
  The keyword arguments of \<^verbatim>\<open>create_filters\<close>, each \<^verbatim>\<open>None\<close> by default. The
  fields carry the prefix \<open>arg_\<close> since \<open>date\<close> and \<open>state\<close> name the record's
  attributes.
\<close>

record criteria =
  arg_date :: pyval
  arg_start_date :: pyval
  arg_end_date :: pyval
  arg_state :: pyval
  arg_hospitalized_min :: pyval
  arg_hospitalized_max :: pyval
  arg_icu_min :: pyval
  arg_icu_max :: pyval
  arg_onvent_min :: pyval
  arg_onvent_max :: pyval
  arg_death_min :: pyval
  arg_death_max :: pyval

definition no_criteria :: criteria where
  "no_criteria =
     \<lparr>arg_date = PyNone, arg_start_date = PyNone, arg_end_date = PyNone,
      arg_state = PyNone,
      arg_hospitalized_min = PyNone, arg_hospitalized_max = PyNone,
      arg_icu_min = PyNone, arg_icu_max = PyNone,
      arg_onvent_min = PyNone, arg_onvent_max = PyNone,
      arg_death_min = PyNone, arg_death_max = PyNone\<rparr>"

text \<open>\<^verbatim>\<open>if x: filters.append(K(o, x))\<close>, one statement of \<^verbatim>\<open>create_filters\<close>.\<close>

definition append_if ::
  "pyval \<Rightarrow> filter_class \<Rightarrow> (pyval \<Rightarrow> pyval \<Rightarrow> error + bool) \<Rightarrow> attribute_filter list
     \<Rightarrow> attribute_filter list" where
  "append_if x k o' filters =
     (if truthy x then filters @ [\<lparr>cls = k, op = o', val = x\<rparr>] else filters)"

definition create_filters :: "criteria \<Rightarrow> attribute_filter list" where
  "create_filters c =
     (let filters = [];
          filters = append_if (arg_date c) DateFilter operator_eq filters;
          filters = append_if (arg_start_date c) DateFilter operator_ge filters;
          filters = append_if (arg_end_date c) DateFilter operator_le filters;
          filters = append_if (arg_state c) StateFilter operator_eq filters;
          filters = append_if (arg_hospitalized_min c) HospitalizedFilter operator_ge filters;
          filters = append_if (arg_hospitalized_max c) HospitalizedFilter operator_le filters;
          filters = append_if (arg_icu_min c) IcuFilter operator_ge filters;
          filters = append_if (arg_icu_max c) IcuFilter operator_le filters;
          filters = append_if (arg_onvent_min c) OnVentFilter operator_ge filters;
          filters = append_if (arg_onvent_max c) OnVentFilter operator_le filters;
          filters = append_if (arg_death_min c) DeathFilter operator_ge filters;
          filters = append_if (arg_death_max c) DeathFilter operator_le filters
      in filters)"

text \<open>
  \<^verbatim>\<open>limit(iterator, n)\<close> on a sequence: \<open>n\<close> is \<^verbatim>\<open>None\<close> or an integer. The
  comprehension keeps the elements whose index \<open>i\<close> satisfies \<open>i < n\<close>.
\<close>

definition limit :: "'a list \<Rightarrow> int option \<Rightarrow> 'a list" where
  "limit iterator n =
     (case n of
        None \<Rightarrow> iterator
      | Some k \<Rightarrow>
          if k = 0 then iterator
          else map snd (filter (\<lambda>(i, x). int i < k) (enumerate 0 iterator)))"

section \<open>database.py\<close>

text \<open>
  A \<^verbatim>\<open>defaultdict(list)\<close> is a dictionary whose subscript \<^verbatim>\<open>m[k]\<close> on a missing
  key stores a new empty list under \<open>k\<close> and returns it. The subscript therefore
  returns the bucket together with the dictionary it leaves behind.
\<close>

definition defaultdict_getitem :: "('k \<rightharpoonup> 'v list) \<Rightarrow> 'k \<Rightarrow> 'v list \<times> ('k \<rightharpoonup> 'v list)" where
  "defaultdict_getitem m k =
     (case m k of
        Some bucket \<Rightarrow> (bucket, m)
      | None \<Rightarrow> ([], m(k \<mapsto> [])))"

text \<open>\<^verbatim>\<open>m[k].append(d)\<close>: the bucket the subscript returns is extended in place.\<close>

definition defaultdict_append :: "('k \<rightharpoonup> 'v list) \<Rightarrow> 'k \<Rightarrow> 'v \<Rightarrow> ('k \<rightharpoonup> 'v list)" where
  "defaultdict_append m k d =
     (case defaultdict_getitem m k of (bucket, m') \<Rightarrow> m'(k \<mapsto> bucket @ [d]))"

record CDCTrackingDatabase =
  cdcObjs :: "CDCTrackingObject list"
  data_by_date :: "string \<rightharpoonup> CDCTrackingObject list"
  data_by_state :: "string \<rightharpoonup> CDCTrackingObject list"

text \<open>The loop of \<^verbatim>\<open>__init__\<close> over the records still to be indexed.\<close>

fun index_records :: "CDCTrackingDatabase \<Rightarrow> CDCTrackingObject list \<Rightarrow> CDCTrackingDatabase" where
  "index_records self [] = self"
| "index_records self (d # ds) =
     index_records
       (self\<lparr>data_by_date := defaultdict_append (data_by_date self) (datetime_to_str (date d)) d,
             data_by_state := defaultdict_append (data_by_state self) (state d) d\<rparr>)
       ds"

definition CDCTrackingDatabase_init :: "CDCTrackingObject list \<Rightarrow> CDCTrackingDatabase" where
  "CDCTrackingDatabase_init objs =
     index_records \<lparr>cdcObjs = objs, data_by_date = Map.empty, data_by_state = Map.empty\<rparr> objs"

text \<open>The two lookups return the bucket and the database as the subscript leaves it.\<close>

definition get_tracking_data_by_date ::
  "CDCTrackingDatabase \<Rightarrow> string \<Rightarrow> CDCTrackingObject list \<times> CDCTrackingDatabase" where
  "get_tracking_data_by_date self k =
     (case defaultdict_getitem (data_by_date self) k of
        (bucket, m') \<Rightarrow> (bucket, self\<lparr>data_by_date := m'\<rparr>))"

definition get_tracking_data_by_state ::
  "CDCTrackingDatabase \<Rightarrow> string \<Rightarrow> CDCTrackingObject list \<times> CDCTrackingDatabase" where
  "get_tracking_data_by_state self k =
     (case defaultdict_getitem (data_by_state self) k of
        (bucket, m') \<Rightarrow> (bucket, self\<lparr>data_by_state := m'\<rparr>))"

text \<open>
  \<^verbatim>\<open>all(map(lambda f: f(obj), filters))\<close>: the filters are called in order, the first
  false result ends the test, and a filter that raises ends it with its error.
\<close>

fun all_filters :: "attribute_filter list \<Rightarrow> CDCTrackingObject \<Rightarrow> error + bool" where
  "all_filters [] obj = Inr True"
| "all_filters (f # fs) obj =
     (case call f obj of
        Inl e \<Rightarrow> Inl e
      | Inr b \<Rightarrow> if b then all_filters fs obj else Inr False)"

text \<open>
  A run of the generator \<^verbatim>\<open>query\<close> returns: the records it yields, in the order it
  yields them, and the error that ended it, if one did.
\<close>

record generated =
  yielded :: "CDCTrackingObject list"
  raised :: "error option"

fun scan :: "attribute_filter list \<Rightarrow> CDCTrackingObject list \<Rightarrow> generated" where
  "scan filters [] = \<lparr>yielded = [], raised = None\<rparr>"
| "scan filters (obj # objs) =
     (case all_filters filters obj of
        Inl e \<Rightarrow> \<lparr>yielded = [], raised = Some e\<rparr>
      | Inr b \<Rightarrow>
          if b then (let rest = scan filters objs in rest\<lparr>yielded := obj # yielded rest\<rparr>)
          else scan filters objs)"

definition query :: "CDCTrackingDatabase \<Rightarrow> attribute_filter list \<Rightarrow> generated" where
  "query self filters =
     (if filters \<noteq> [] then scan filters (cdcObjs self)
      else \<lparr>yielded = cdcObjs self, raised = None\<rparr>)"

text \<open>
  A sequence of calls on one database. Each call leaves the database as its method
  does; \<^verbatim>\<open>query\<close> assigns to no attribute of \<^verbatim>\<open>self\<close>.
\<close>

datatype db_call =
    GetTrackingDataByDate string
  | GetTrackingDataByState string
  | Query "attribute_filter list"

fun step :: "CDCTrackingDatabase \<Rightarrow> db_call \<Rightarrow> CDCTrackingDatabase" where
  "step self (GetTrackingDataByDate k) = snd (get_tracking_data_by_date self k)"
| "step self (GetTrackingDataByState k) = snd (get_tracking_data_by_state self k)"
| "step self (Query filters) = self"

definition run :: "CDCTrackingDatabase \<Rightarrow> db_call list \<Rightarrow> CDCTrackingDatabase" where
  "run self calls = foldl step self calls"

section \<open>Sample data\<close>

text \<open>
  Three records in the shape \<^verbatim>\<open>load_cdc_data\<close> produces, used to evaluate the
  definitions at concrete inputs. The third carries a time of day.
\<close>

definition ca_feb1 :: CDCTrackingObject where
  "ca_feb1 =
     \<lparr>date = Datetime (Date 2021 2 1) 0 0 0 0, state = ''CA'', death = 40908,
      deathIncrease = 211, hospitalizedCumulative = 0, hospitalizedCurrently = 14850,
      inIcuCurrently = 4032, negative = 0, onVentilatorCumulative = 0,
      onVentilatorCurrently = 0, positive = 3258706, totalTestResultsIncrease = 200291,
      totalTestsAntibody = 0, totalTestsAntigen = 0, totalTestsViral = 42391652\<rparr>"

definition wi_feb1 :: CDCTrackingObject where
  "wi_feb1 =
     \<lparr>date = Datetime (Date 2021 2 1) 0 0 0 0, state = ''WI'', death = 6434,
      deathIncrease = 1, hospitalizedCumulative = 24359, hospitalizedCurrently = 681,
      inIcuCurrently = 173, negative = 2489831, onVentilatorCumulative = 0,
      onVentilatorCurrently = 0, positive = 593354, totalTestResultsIncrease = 17648,
      totalTestsAntibody = 0, totalTestsAntigen = 0, totalTestsViral = 6442946\<rparr>"

definition ca_feb2 :: CDCTrackingObject where
  "ca_feb2 =
     \<lparr>date = Datetime (Date 2021 2 2) 13 45 30 0, state = ''CA'', death = 41330,
      deathIncrease = 422, hospitalizedCumulative = 0, hospitalizedCurrently = 14578,
      inIcuCurrently = 3955, negative = 0, onVentilatorCumulative = 0,
      onVentilatorCurrently = 0, positive = 3270770, totalTestResultsIncrease = 146370,
      totalTestsAntibody = 0, totalTestsAntigen = 0, totalTestsViral = 42538022\<rparr>"

section \<open>The limit helper\<close>

lemma limit_filter_take:
  "map snd (filter (\<lambda>(i, x). int i < k) (enumerate m xs)) = take (nat (k - int m)) xs"
proof (induction xs arbitrary: m)
  case Nil
  then show ?case by simp
next
  case (Cons x xs)
  show ?case
  proof (cases "int m < k")
    case True
    then have "nat (k - int m) = Suc (nat (k - int (Suc m)))" by simp
    with True Cons.IH [of "Suc m"] show ?thesis by simp
  next
    case False
    then have "nat (k - int m) = 0" "\<not> int (Suc m) < k" by simp_all
    with False Cons.IH [of "Suc m"] show ?thesis by simp
  qed
qed

section \<open>The filters and the scan\<close>

lemma all_filters_True:
  "all_filters fs r = Inr True \<longleftrightarrow> (\<forall>f\<in>set fs. call f r = Inr True)"
  by (induction fs) (auto split: sum.splits)

lemma all_filters_error:
  "all_filters fs r = Inl e \<Longrightarrow> \<exists>f\<in>set fs. call f r = Inl e"
  by (induction fs) (auto split: sum.splits if_splits)

lemma get_error_any_record:
  "get k r = Inl e \<Longrightarrow> get k r' = Inl e"
  by (cases k) simp_all

lemma get_same_type:
  "get k r = Inr a \<Longrightarrow> \<exists>b. get k r' = Inr b \<and>
     ((\<exists>x y. a = PyInt x \<and> b = PyInt y) \<or> (\<exists>x y. a = PyStr x \<and> b = PyStr y)
       \<or> (\<exists>x y. a = PyDate x \<and> b = PyDate y))"
  by (cases k) auto

lemma operator_le_error:
  "operator_le a v = Inl e \<Longrightarrow>
     (\<exists>x y. a = PyInt x \<and> b = PyInt y) \<or> (\<exists>x y. a = PyStr x \<and> b = PyStr y)
       \<or> (\<exists>x y. a = PyDate x \<and> b = PyDate y) \<Longrightarrow> operator_le b v = Inl e"
  by (cases a; cases v) auto

lemma operator_ge_error:
  "operator_ge a v = Inl e \<Longrightarrow>
     (\<exists>x y. a = PyInt x \<and> b = PyInt y) \<or> (\<exists>x y. a = PyStr x \<and> b = PyStr y)
       \<or> (\<exists>x y. a = PyDate x \<and> b = PyDate y) \<Longrightarrow> operator_ge b v = Inl e"
  by (cases a; cases v) auto

lemma call_error_any_record:
  assumes "op f \<in> {operator_eq, operator_ge, operator_le}" and "call f r = Inl e"
  shows "call f r' = Inl e"
proof (cases "get (cls f) r")
  case (Inl e')
  with assms(2) have "e' = e" by (simp add: call_def)
  with Inl get_error_any_record [of "cls f" r e r'] show ?thesis by (simp add: call_def)
next
  case (Inr a)
  from get_same_type [OF Inr, of r'] obtain b where b: "get (cls f) r' = Inr b"
    and ty: "(\<exists>x y. a = PyInt x \<and> b = PyInt y) \<or> (\<exists>x y. a = PyStr x \<and> b = PyStr y)
       \<or> (\<exists>x y. a = PyDate x \<and> b = PyDate y)" by blast
  from assms(2) Inr have err: "op f a (val f) = Inl e" by (simp add: call_def)
  from assms(1) consider "op f = operator_eq" | "op f = operator_ge" | "op f = operator_le" by auto
  then have "op f b (val f) = Inl e"
  proof cases
    case 1
    with err show ?thesis by (simp add: operator_eq_def)
  next
    case 2
    with err operator_ge_error [OF _ ty] show ?thesis by simp
  next
    case 3
    with err operator_le_error [OF _ ty] show ?thesis by simp
  qed
  with b show ?thesis by (simp add: call_def)
qed

lemma scan_yielded:
  assumes "\<forall>f\<in>set fs. op f \<in> {operator_eq, operator_ge, operator_le}"
  shows "yielded (scan fs rs) = filter (\<lambda>r. \<forall>f\<in>set fs. call f r = Inr True) rs"
proof (induction rs)
  case Nil
  then show ?case by simp
next
  case (Cons r rs)
  show ?case
  proof (cases "all_filters fs r")
    case (Inl e)
    then obtain f where f: "f \<in> set fs" "call f r = Inl e" using all_filters_error by blast
    with assms have "\<And>r'. call f r' = Inl e" using call_error_any_record by blast
    with f(1) have "\<And>r'. \<not> (\<forall>f\<in>set fs. call f r' = Inr True)" by force
    then have "filter (\<lambda>r. \<forall>f\<in>set fs. call f r = Inr True) (r # rs) = []" by simp
    with Inl show ?thesis by simp
  next
    case (Inr b)
    show ?thesis
    proof (cases b)
      case True
      with Inr have "\<forall>f\<in>set fs. call f r = Inr True" by (simp add: all_filters_True)
      with Inr True Cons.IH show ?thesis by (simp add: Let_def)
    next
      case False
      with Inr have "\<not> (\<forall>f\<in>set fs. call f r = Inr True)"
        using all_filters_True [of fs r] by simp
      with Inr False Cons.IH show ?thesis by simp
    qed
  qed
qed

lemma scan_subseq: "subseq (yielded (scan fs rs)) rs"
  by (induction rs) (auto split: sum.splits simp: Let_def)

section \<open>Attributes of the sample data\<close>

lemma sample_attributes:
  "state ca_feb1 = ''CA''" "state wi_feb1 = ''WI''" "state ca_feb2 = ''CA''"
  "date ca_feb1 = Datetime (Date 2021 2 1) 0 0 0 0"
  "date wi_feb1 = Datetime (Date 2021 2 1) 0 0 0 0"
  "date ca_feb2 = Datetime (Date 2021 2 2) 13 45 30 0"
  by (simp_all add: ca_feb1_def wi_feb1_def ca_feb2_def)

lemma sample_keys:
  "datetime_to_str (date ca_feb1) = ''2021-02-01''"
  "datetime_to_str (date wi_feb1) = ''2021-02-01''"
  "datetime_to_str (date ca_feb2) = ''2021-02-02''"
  by (simp_all add: sample_attributes two_digits_def four_digits_def digit_char_def)

section \<open>The indexes and the lookups\<close>

lemma defaultdict_append_apply:
  "defaultdict_append m k d k' =
     (if k' = k then Some (fst (defaultdict_getitem m k) @ [d]) else m k')"
  by (simp add: defaultdict_append_def defaultdict_getitem_def split: option.splits)

lemma index_records_cdcObjs: "cdcObjs (index_records self ds) = cdcObjs self"
  by (induction ds arbitrary: self) simp_all

lemma index_records_by_date:
  "data_by_date (index_records self ds) k =
     (case data_by_date self k of
        Some b \<Rightarrow> Some (b @ filter (\<lambda>d. datetime_to_str (date d) = k) ds)
      | None \<Rightarrow>
          if filter (\<lambda>d. datetime_to_str (date d) = k) ds = [] then None
          else Some (filter (\<lambda>d. datetime_to_str (date d) = k) ds))"
  by (induction ds arbitrary: self)
    (auto simp: defaultdict_append_apply defaultdict_getitem_def split: option.splits)

lemma index_records_by_state:
  "data_by_state (index_records self ds) k =
     (case data_by_state self k of
        Some b \<Rightarrow> Some (b @ filter (\<lambda>d. state d = k) ds)
      | None \<Rightarrow>
          if filter (\<lambda>d. state d = k) ds = [] then None
          else Some (filter (\<lambda>d. state d = k) ds))"
  by (induction ds arbitrary: self)
    (auto simp: defaultdict_append_apply defaultdict_getitem_def split: option.splits)

lemma init_cdcObjs: "cdcObjs (CDCTrackingDatabase_init objs) = objs"
  by (simp add: CDCTrackingDatabase_init_def index_records_cdcObjs)

lemma init_by_date:
  "data_by_date (CDCTrackingDatabase_init objs) k =
     (if filter (\<lambda>d. datetime_to_str (date d) = k) objs = [] then None
      else Some (filter (\<lambda>d. datetime_to_str (date d) = k) objs))"
  by (simp add: CDCTrackingDatabase_init_def index_records_by_date)

lemma init_by_state:
  "data_by_state (CDCTrackingDatabase_init objs) k =
     (if filter (\<lambda>d. state d = k) objs = [] then None
      else Some (filter (\<lambda>d. state d = k) objs))"
  by (simp add: CDCTrackingDatabase_init_def index_records_by_state)

lemma step_cdcObjs: "cdcObjs (step self c) = cdcObjs self"
  by (cases c)
    (simp_all add: get_tracking_data_by_date_def get_tracking_data_by_state_def
      split: prod.splits)

lemma step_by_date:
  "data_by_date (step self c) k =
     (case data_by_date self k of
        Some b \<Rightarrow> Some b
      | None \<Rightarrow> if c = GetTrackingDataByDate k then Some [] else None)"
  by (cases c)
    (auto simp: get_tracking_data_by_date_def get_tracking_data_by_state_def
      defaultdict_getitem_def split: prod.splits option.splits)

lemma step_by_state:
  "data_by_state (step self c) k =
     (case data_by_state self k of
        Some b \<Rightarrow> Some b
      | None \<Rightarrow> if c = GetTrackingDataByState k then Some [] else None)"
  by (cases c)
    (auto simp: get_tracking_data_by_date_def get_tracking_data_by_state_def
      defaultdict_getitem_def split: prod.splits option.splits)

lemma run_cdcObjs: "cdcObjs (run self calls) = cdcObjs self"
  unfolding run_def by (induction calls arbitrary: self) (simp_all add: step_cdcObjs)

lemma run_by_date:
  "data_by_date (run self calls) k =
     (case data_by_date self k of
        Some b \<Rightarrow> Some b
      | None \<Rightarrow> if GetTrackingDataByDate k \<in> set calls then Some [] else None)"
  unfolding run_def
  by (induction calls arbitrary: self) (auto simp: step_by_date split: option.splits)

lemma run_by_state:
  "data_by_state (run self calls) k =
     (case data_by_state self k of
        Some b \<Rightarrow> Some b
      | None \<Rightarrow> if GetTrackingDataByState k \<in> set calls then Some [] else None)"
  unfolding run_def
  by (induction calls arbitrary: self) (auto simp: step_by_state split: option.splits)

lemma lookup_by_date:
  "fst (get_tracking_data_by_date (run (CDCTrackingDatabase_init objs) calls) k) =
     filter (\<lambda>d. datetime_to_str (date d) = k) objs"
  by (simp add: get_tracking_data_by_date_def defaultdict_getitem_def run_by_date init_by_date
      split: prod.splits option.splits)

lemma lookup_by_state:
  "fst (get_tracking_data_by_state (run (CDCTrackingDatabase_init objs) calls) k) =
     filter (\<lambda>d. state d = k) objs"
  by (simp add: get_tracking_data_by_state_def defaultdict_getitem_def run_by_state init_by_state
      split: prod.splits option.splits)

section \<open>The query on a constructed database\<close>

lemma query_yielded:
  assumes "\<forall>f\<in>set filters. op f \<in> {operator_eq, operator_ge, operator_le}"
  shows "yielded (query (CDCTrackingDatabase_init objs) filters)
           = filter (\<lambda>r. \<forall>f\<in>set filters. call f r = Inr True) objs"
proof (cases "filters = []")
  case True
  then show ?thesis by (simp add: query_def init_cdcObjs)
next
  case False
  have "yielded (scan filters objs) = filter (\<lambda>r. \<forall>f\<in>set filters. call f r = Inr True) objs"
    by (rule scan_yielded [OF assms])
  with False show ?thesis by (simp only: query_def init_cdcObjs if_True simp_thms)
qed

section \<open>The factory\<close>

lemma append_if_append:
  "append_if x k o' filters =
     filters @ (if truthy x then [\<lparr>cls = k, op = o', val = x\<rparr>] else [])"
  by (simp add: append_if_def)

lemma create_filters_unfold:
  "create_filters c =
     (if truthy (arg_date c)
        then [\<lparr>cls = DateFilter, op = operator_eq, val = arg_date c\<rparr>] else [])
     @ (if truthy (arg_start_date c)
        then [\<lparr>cls = DateFilter, op = operator_ge, val = arg_start_date c\<rparr>] else [])
     @ (if truthy (arg_end_date c)
        then [\<lparr>cls = DateFilter, op = operator_le, val = arg_end_date c\<rparr>] else [])
     @ (if truthy (arg_state c)
        then [\<lparr>cls = StateFilter, op = operator_eq, val = arg_state c\<rparr>] else [])
     @ (if truthy (arg_hospitalized_min c)
        then [\<lparr>cls = HospitalizedFilter, op = operator_ge, val = arg_hospitalized_min c\<rparr>] else [])
     @ (if truthy (arg_hospitalized_max c)
        then [\<lparr>cls = HospitalizedFilter, op = operator_le, val = arg_hospitalized_max c\<rparr>] else [])
     @ (if truthy (arg_icu_min c)
        then [\<lparr>cls = IcuFilter, op = operator_ge, val = arg_icu_min c\<rparr>] else [])
     @ (if truthy (arg_icu_max c)
        then [\<lparr>cls = IcuFilter, op = operator_le, val = arg_icu_max c\<rparr>] else [])
     @ (if truthy (arg_onvent_min c)
        then [\<lparr>cls = OnVentFilter, op = operator_ge, val = arg_onvent_min c\<rparr>] else [])
     @ (if truthy (arg_onvent_max c)
        then [\<lparr>cls = OnVentFilter, op = operator_le, val = arg_onvent_max c\<rparr>] else [])
     @ (if truthy (arg_death_min c)
        then [\<lparr>cls = DeathFilter, op = operator_ge, val = arg_death_min c\<rparr>] else [])
     @ (if truthy (arg_death_max c)
        then [\<lparr>cls = DeathFilter, op = operator_le, val = arg_death_max c\<rparr>] else [])"
  unfolding create_filters_def Let_def append_if_append
  by (simp only: append_Nil append_assoc)

lemma create_filters_member:
  assumes "f \<in> set (create_filters c)"
  shows "cls f \<noteq> AttributeFilter \<and> op f \<in> {operator_eq, operator_ge, operator_le}"
  using assms unfolding create_filters_unfold
  by (auto split: if_splits)

lemma comparator_error:
  assumes "o' \<in> {operator_eq, operator_ge, operator_le}"
  shows "o' a b \<noteq> Inl UnsupportedCriterionError"
proof -
  have "operator_ge a b \<noteq> Inl UnsupportedCriterionError"
    by (cases a; cases b) simp_all
  moreover have "operator_le a b \<noteq> Inl UnsupportedCriterionError"
    by (cases a; cases b) simp_all
  moreover have "operator_eq a b \<noteq> Inl UnsupportedCriterionError"
    by (simp add: operator_eq_def)
  ultimately show ?thesis using assms by auto
qed


section \<open>Claims\<close>

text \<open>
  C1. For every database built from a record sequence and every collection of
  filters whose comparator is \<^verbatim>\<open>operator.eq\<close>, \<^verbatim>\<open>operator.ge\<close> or
  \<^verbatim>\<open>operator.le\<close> (of any class, the base class included, and with any reference
  value): a record of the base sequence is yielded by \<^verbatim>\<open>query\<close> if and only if
  every filter of the collection evaluates to true on it; the yielded sequence is the
  base sequence restricted to those records; and a collection with the same filters
  in another order yields the same records. A filter that raises is true on no
  record, and no record is yielded once it has raised.
\<close>

theorem query_conjunction:
  assumes "\<forall>f\<in>set filters. op f \<in> {operator_eq, operator_ge, operator_le}"
  shows "(\<forall>r\<in>set objs.
            r \<in> set (yielded (query (CDCTrackingDatabase_init objs) filters))
              \<longleftrightarrow> (\<forall>f\<in>set filters. call f r = Inr True))
       \<and> yielded (query (CDCTrackingDatabase_init objs) filters)
           = filter (\<lambda>r. \<forall>f\<in>set filters. call f r = Inr True) objs
       \<and> (\<forall>filters'. set filters' = set filters \<longrightarrow>
            yielded (query (CDCTrackingDatabase_init objs) filters')
              = yielded (query (CDCTrackingDatabase_init objs) filters))"
proof (intro conjI ballI allI impI)
  show eq: "yielded (query (CDCTrackingDatabase_init objs) filters)
           = filter (\<lambda>r. \<forall>f\<in>set filters. call f r = Inr True) objs"
    by (rule query_yielded [OF assms])
  fix r assume "r \<in> set objs"
  then show "r \<in> set (yielded (query (CDCTrackingDatabase_init objs) filters))
              \<longleftrightarrow> (\<forall>f\<in>set filters. call f r = Inr True)"
    unfolding eq by simp
next
  fix filters' assume same: "set filters' = set filters"
  with assms have "\<forall>f\<in>set filters'. op f \<in> {operator_eq, operator_ge, operator_le}"
    by (simp only:)
  then have "yielded (query (CDCTrackingDatabase_init objs) filters')
           = filter (\<lambda>r. \<forall>f\<in>set filters'. call f r = Inr True) objs"
    by (rule query_yielded)
  also have "\<dots> = filter (\<lambda>r. \<forall>f\<in>set filters. call f r = Inr True) objs"
    by (simp only: same)
  also have "\<dots> = yielded (query (CDCTrackingDatabase_init objs) filters)"
    by (rule query_yielded [OF assms, symmetric])
  finally show "yielded (query (CDCTrackingDatabase_init objs) filters')
              = yielded (query (CDCTrackingDatabase_init objs) filters)" .
qed

theorem query_conjunction_witness:
  "op \<lparr>cls = StateFilter, op = operator_eq, val = PyStr ''CA''\<rparr>
       \<in> {operator_eq, operator_ge, operator_le}
   \<and> op \<lparr>cls = DateFilter, op = operator_le, val = PyDate (Date 2021 2 1)\<rparr>
       \<in> {operator_eq, operator_ge, operator_le}
   \<and> yielded (query (CDCTrackingDatabase_init [ca_feb1, wi_feb1, ca_feb2])
         [\<lparr>cls = StateFilter, op = operator_eq, val = PyStr ''CA''\<rparr>,
          \<lparr>cls = DateFilter, op = operator_le, val = PyDate (Date 2021 2 1)\<rparr>]) = [ca_feb1]
   \<and> yielded (query (CDCTrackingDatabase_init [ca_feb1, wi_feb1, ca_feb2])
         [\<lparr>cls = DateFilter, op = operator_le, val = PyDate (Date 2021 2 1)\<rparr>,
          \<lparr>cls = StateFilter, op = operator_eq, val = PyStr ''CA''\<rparr>]) = [ca_feb1]"
proof -
  let ?P1 = "\<lparr>cls = StateFilter, op = operator_eq, val = PyStr ''CA''\<rparr>"
  let ?P2 = "\<lparr>cls = DateFilter, op = operator_le, val = PyDate (Date 2021 2 1)\<rparr>"
  let ?db = "CDCTrackingDatabase_init [ca_feb1, wi_feb1, ca_feb2]"
  have h: "\<forall>f\<in>set [?P1, ?P2]. op f \<in> {operator_eq, operator_ge, operator_le}" by simp
  note t = query_conjunction [OF h, of "[ca_feb1, wi_feb1, ca_feb2]"]
  from t have "yielded (query ?db [?P1, ?P2])
      = filter (\<lambda>r. \<forall>f\<in>set [?P1, ?P2]. call f r = Inr True) [ca_feb1, wi_feb1, ca_feb2]"
    by (rule conjunct1 [OF conjunct2])
  also have "\<dots> = [ca_feb1]"
    by (simp add: call_def operator_eq_def sample_attributes)
  finally have a: "yielded (query ?db [?P1, ?P2]) = [ca_feb1]" .
  from t have "\<forall>filters'. set filters' = set [?P1, ?P2] \<longrightarrow>
      yielded (query ?db filters') = yielded (query ?db [?P1, ?P2])"
    by (rule conjunct2 [OF conjunct2])
  then have "set [?P2, ?P1] = set [?P1, ?P2] \<longrightarrow>
      yielded (query ?db [?P2, ?P1]) = yielded (query ?db [?P1, ?P2])" by (rule spec)
  moreover have "set [?P2, ?P1] = set [?P1, ?P2]" by (simp add: insert_commute)
  ultimately have "yielded (query ?db [?P2, ?P1]) = yielded (query ?db [?P1, ?P2])" by (rule mp)
  with a have b: "yielded (query ?db [?P2, ?P1]) = [ca_feb1]" by (simp only:)
  from h have "op ?P1 \<in> {operator_eq, operator_ge, operator_le}"
    and "op ?P2 \<in> {operator_eq, operator_ge, operator_le}" by simp_all
  with a b show ?thesis by (intro conjI)
qed

text \<open>
  C2. For every record sequence, \<^verbatim>\<open>query\<close> with no predicate yields exactly the
  records of the sequence, each once, in load order, and ends without an error; and
  for every collection of predicates the records \<^verbatim>\<open>query\<close> yields are a
  subsequence of the base sequence, so they come in load order.
\<close>

theorem query_no_filters:
  "query (CDCTrackingDatabase_init objs) [] = \<lparr>yielded = objs, raised = None\<rparr>
     \<and> subseq (yielded (query (CDCTrackingDatabase_init objs) filters)) objs"
  by (simp add: query_def init_cdcObjs scan_subseq)

text \<open>
  C3. The claim that no lookup changes the key set of the indexes fails: the lookups
  subscript a \<^verbatim>\<open>defaultdict\<close>, which stores an empty bucket under a key it does
  not hold. Here a lookup of a date without records adds that date to the keys of
  the index by date.
\<close>

theorem lookups_change_key_set:
  "dom (data_by_date (run (CDCTrackingDatabase_init [ca_feb1])
          [GetTrackingDataByDate ''2021-02-02'']))
     \<noteq> dom (data_by_date (CDCTrackingDatabase_init [ca_feb1]))"
proof -
  have "''2021-02-02'' \<in> dom (data_by_date (run (CDCTrackingDatabase_init [ca_feb1])
          [GetTrackingDataByDate ''2021-02-02'']))"
    by (simp add: run_by_date dom_def split: option.splits)
  moreover have "''2021-02-02'' \<notin> dom (data_by_date (CDCTrackingDatabase_init [ca_feb1]))"
    by (simp add: init_by_date dom_def ca_feb1_def two_digits_def four_digits_def digit_char_def)
  ultimately show ?thesis by metis
qed

text \<open>
  C3, as the code has it. After any sequence of \<^verbatim>\<open>get_tracking_data_by_date\<close>,
  \<^verbatim>\<open>get_tracking_data_by_state\<close> and \<^verbatim>\<open>query\<close> calls on a constructed database
  the base sequence is the one given to the constructor; every bucket that existed
  after construction is unchanged; a key without a bucket has an empty bucket if it
  was looked up in that index and none otherwise; and every lookup and every query
  returns what it returns right after construction.
\<close>

theorem lookups_keep_buckets:
  "cdcObjs (run (CDCTrackingDatabase_init objs) calls) = objs
   \<and> data_by_date (run (CDCTrackingDatabase_init objs) calls) k =
       (case data_by_date (CDCTrackingDatabase_init objs) k of
          Some b \<Rightarrow> Some b
        | None \<Rightarrow> if GetTrackingDataByDate k \<in> set calls then Some [] else None)
   \<and> data_by_state (run (CDCTrackingDatabase_init objs) calls) k =
       (case data_by_state (CDCTrackingDatabase_init objs) k of
          Some b \<Rightarrow> Some b
        | None \<Rightarrow> if GetTrackingDataByState k \<in> set calls then Some [] else None)
   \<and> fst (get_tracking_data_by_date (run (CDCTrackingDatabase_init objs) calls) k)
       = fst (get_tracking_data_by_date (CDCTrackingDatabase_init objs) k)
   \<and> fst (get_tracking_data_by_state (run (CDCTrackingDatabase_init objs) calls) k)
       = fst (get_tracking_data_by_state (CDCTrackingDatabase_init objs) k)
   \<and> query (run (CDCTrackingDatabase_init objs) calls) filters
       = query (CDCTrackingDatabase_init objs) filters"
  using lookup_by_date [of objs calls k] lookup_by_date [of objs "[]" k]
    lookup_by_state [of objs calls k] lookup_by_state [of objs "[]" k]
  by (simp add: run_cdcObjs init_cdcObjs run_by_date run_by_state query_def)
    (simp add: run_def)

text \<open>
  C4. \<^verbatim>\<open>create_filters\<close> returns one predicate for each argument that is true in
  Python's truth test, in the order date, start_date, end_date, state,
  hospitalized_min, hospitalized_max, icu_min, icu_max, onvent_min, onvent_max,
  death_min, death_max: date gives a date filter with equals, start_date one with
  greater-or-equal, end_date one with less-or-equal, state a state filter with equals,
  each minimum its filter with greater-or-equal and each maximum its filter with
  less-or-equal, the argument as reference value. An argument that is \<^verbatim>\<open>None\<close> or
  the integer 0 gives no predicate, so \<^verbatim>\<open>create_filters(hospitalized_min=0)\<close> is
  empty, while \<^verbatim>\<open>hospitalized_min=100\<close> gives the one hospitalized predicate.
\<close>

theorem create_filters_mapping:
  "create_filters c =
     (if truthy (arg_date c)
        then [\<lparr>cls = DateFilter, op = operator_eq, val = arg_date c\<rparr>] else [])
     @ (if truthy (arg_start_date c)
        then [\<lparr>cls = DateFilter, op = operator_ge, val = arg_start_date c\<rparr>] else [])
     @ (if truthy (arg_end_date c)
        then [\<lparr>cls = DateFilter, op = operator_le, val = arg_end_date c\<rparr>] else [])
     @ (if truthy (arg_state c)
        then [\<lparr>cls = StateFilter, op = operator_eq, val = arg_state c\<rparr>] else [])
     @ (if truthy (arg_hospitalized_min c)
        then [\<lparr>cls = HospitalizedFilter, op = operator_ge, val = arg_hospitalized_min c\<rparr>] else [])
     @ (if truthy (arg_hospitalized_max c)
        then [\<lparr>cls = HospitalizedFilter, op = operator_le, val = arg_hospitalized_max c\<rparr>] else [])
     @ (if truthy (arg_icu_min c)
        then [\<lparr>cls = IcuFilter, op = operator_ge, val = arg_icu_min c\<rparr>] else [])
     @ (if truthy (arg_icu_max c)
        then [\<lparr>cls = IcuFilter, op = operator_le, val = arg_icu_max c\<rparr>] else [])
     @ (if truthy (arg_onvent_min c)
        then [\<lparr>cls = OnVentFilter, op = operator_ge, val = arg_onvent_min c\<rparr>] else [])
     @ (if truthy (arg_onvent_max c)
        then [\<lparr>cls = OnVentFilter, op = operator_le, val = arg_onvent_max c\<rparr>] else [])
     @ (if truthy (arg_death_min c)
        then [\<lparr>cls = DeathFilter, op = operator_ge, val = arg_death_min c\<rparr>] else [])
     @ (if truthy (arg_death_max c)
        then [\<lparr>cls = DeathFilter, op = operator_le, val = arg_death_max c\<rparr>] else [])
   \<and> \<not> truthy PyNone \<and> \<not> truthy (PyInt 0)
   \<and> create_filters (no_criteria\<lparr>arg_hospitalized_min := PyInt 0\<rparr>) = []
   \<and> create_filters (no_criteria\<lparr>arg_hospitalized_min := PyInt 100\<rparr>)
       = [\<lparr>cls = HospitalizedFilter, op = operator_ge, val = PyInt 100\<rparr>]"
proof -
  have "create_filters (no_criteria\<lparr>arg_hospitalized_min := PyInt 0\<rparr>) = []"
    by (simp add: create_filters_unfold no_criteria_def)
  moreover have "create_filters (no_criteria\<lparr>arg_hospitalized_min := PyInt 100\<rparr>)
       = [\<lparr>cls = HospitalizedFilter, op = operator_ge, val = PyInt 100\<rparr>]"
    by (simp add: create_filters_unfold no_criteria_def)
  ultimately show ?thesis
    using create_filters_unfold [of c] by (simp only: truthy.simps simp_thms)
qed

text \<open>
  C5. For a positive \<open>n\<close>, \<^verbatim>\<open>limit\<close> returns the first \<open>min n (length xs)\<close>
  elements in their order, also when \<open>n\<close> exceeds the length; for \<open>n\<close> zero or
  \<^verbatim>\<open>None\<close> it returns the sequence as it is.
\<close>

theorem limit_truncates:
  "(0 < n \<longrightarrow> limit xs (Some n) = take (min (nat n) (length xs)) xs)
     \<and> limit xs (Some 0) = xs \<and> limit xs None = xs"
  by (simp add: limit_def limit_filter_take min_def)

theorem limit_truncates_witness:
  "(0::int) < 3
     \<and> limit [ca_feb1, wi_feb1, ca_feb2, ca_feb1, wi_feb1, ca_feb2, ca_feb1, wi_feb1,
          ca_feb2, ca_feb1] (Some 3) = [ca_feb1, wi_feb1, ca_feb2]
     \<and> limit [ca_feb1, wi_feb1] (Some 3) = [ca_feb1, wi_feb1]"
  using limit_truncates [of 3 "[ca_feb1, wi_feb1, ca_feb2, ca_feb1, wi_feb1, ca_feb2, ca_feb1,
      wi_feb1, ca_feb2, ca_feb1]"]
    limit_truncates [of 3 "[ca_feb1, wi_feb1]"]
  by simp

text \<open>
  C6. After construction every record of the base sequence is in the bucket of the
  index by date under its date formatted as YYYY-MM-DD and in no bucket under another
  key, and in the bucket of the index by state under its state code and in no other;
  and each bucket is the base sequence restricted to the records of its key, so the
  records of a bucket stand in the order of the base sequence.
\<close>

theorem index_buckets:
  assumes "r \<in> set objs"
  shows "(\<exists>b. data_by_date (CDCTrackingDatabase_init objs) (datetime_to_str (date r)) = Some b
            \<and> r \<in> set b)
       \<and> (\<exists>b. data_by_state (CDCTrackingDatabase_init objs) (state r) = Some b \<and> r \<in> set b)
       \<and> (\<forall>k b. data_by_date (CDCTrackingDatabase_init objs) k = Some b \<and> r \<in> set b
            \<longrightarrow> k = datetime_to_str (date r))
       \<and> (\<forall>k b. data_by_state (CDCTrackingDatabase_init objs) k = Some b \<and> r \<in> set b
            \<longrightarrow> k = state r)
       \<and> (\<forall>k b. data_by_date (CDCTrackingDatabase_init objs) k = Some b
            \<longrightarrow> b = filter (\<lambda>d. datetime_to_str (date d) = k) objs)
       \<and> (\<forall>k b. data_by_state (CDCTrackingDatabase_init objs) k = Some b
            \<longrightarrow> b = filter (\<lambda>d. state d = k) objs)"
proof -
  from assms have "filter (\<lambda>d. datetime_to_str (date d) = datetime_to_str (date r)) objs \<noteq> []"
    by (simp add: filter_empty_conv) blast
  moreover from assms have "filter (\<lambda>d. state d = state r) objs \<noteq> []"
    by (simp add: filter_empty_conv) blast
  ultimately show ?thesis using assms
    by (auto simp: init_by_date init_by_state split: if_splits)
qed

theorem index_buckets_witness:
  "ca_feb2 \<in> set [ca_feb1, wi_feb1, ca_feb2]
   \<and> datetime_to_str (date ca_feb2) = ''2021-02-02''
   \<and> data_by_date (CDCTrackingDatabase_init [ca_feb1, wi_feb1, ca_feb2]) ''2021-02-02''
       = Some [ca_feb2]
   \<and> data_by_date (CDCTrackingDatabase_init [ca_feb1, wi_feb1, ca_feb2]) ''2021-02-01''
       = Some [ca_feb1, wi_feb1]
   \<and> data_by_state (CDCTrackingDatabase_init [ca_feb1, wi_feb1, ca_feb2]) ''CA''
       = Some [ca_feb1, ca_feb2]"
proof -
  have m: "ca_feb2 \<in> set [ca_feb1, wi_feb1, ca_feb2]" by simp
  note t = index_buckets [OF m]
  from t obtain b where b: "data_by_date (CDCTrackingDatabase_init [ca_feb1, wi_feb1, ca_feb2])
      (datetime_to_str (date ca_feb2)) = Some b" by blast
  from t b have "b = filter (\<lambda>d. datetime_to_str (date d) = datetime_to_str (date ca_feb2))
      [ca_feb1, wi_feb1, ca_feb2]" by blast
  then have "b = [ca_feb2]" by (simp add: sample_keys)
  with b have d2: "data_by_date (CDCTrackingDatabase_init [ca_feb1, wi_feb1, ca_feb2])
      ''2021-02-02'' = Some [ca_feb2]" by (simp add: sample_keys)
  from t obtain b' where b': "data_by_state (CDCTrackingDatabase_init [ca_feb1, wi_feb1, ca_feb2])
      (state ca_feb2) = Some b'" by blast
  from t b' have "b' = filter (\<lambda>d. state d = state ca_feb2) [ca_feb1, wi_feb1, ca_feb2]"
    by blast
  then have "b' = [ca_feb1, ca_feb2]" by (simp add: sample_attributes)
  with b' have s: "data_by_state (CDCTrackingDatabase_init [ca_feb1, wi_feb1, ca_feb2]) ''CA''
      = Some [ca_feb1, ca_feb2]" by (simp add: sample_attributes)
  have d1: "data_by_date (CDCTrackingDatabase_init [ca_feb1, wi_feb1, ca_feb2]) ''2021-02-01''
      = Some [ca_feb1, wi_feb1]" by (simp add: init_by_date sample_keys)
  from m d2 d1 s show ?thesis by (simp add: sample_keys)
qed

text \<open>
  C7. For a database constructed from a record sequence, also after any sequence of
  calls on it, a lookup by a date key that no record has returns the empty sequence,
  and so does a lookup by a state key that no record has. The lookups are total: the
  subscript of a \<^verbatim>\<open>defaultdict(list)\<close> takes the default for a missing key where a
  plain dictionary raises.
\<close>

theorem lookup_miss_empty:
  "((\<forall>d\<in>set objs. datetime_to_str (date d) \<noteq> k) \<longrightarrow>
      fst (get_tracking_data_by_date (run (CDCTrackingDatabase_init objs) calls) k) = [])
   \<and> ((\<forall>d\<in>set objs. state d \<noteq> k) \<longrightarrow>
      fst (get_tracking_data_by_state (run (CDCTrackingDatabase_init objs) calls) k) = [])"
  by (simp add: lookup_by_date lookup_by_state filter_empty_conv)

theorem lookup_miss_empty_witness:
  "datetime_to_str (date ca_feb1) \<noteq> ''2021-02-02''
   \<and> datetime_to_str (date wi_feb1) \<noteq> ''2021-02-02''
   \<and> state ca_feb1 \<noteq> ''NY'' \<and> state wi_feb1 \<noteq> ''NY''
   \<and> fst (get_tracking_data_by_date
        (run (CDCTrackingDatabase_init [ca_feb1, wi_feb1]) [GetTrackingDataByState ''NY''])
        ''2021-02-02'') = []
   \<and> fst (get_tracking_data_by_state
        (run (CDCTrackingDatabase_init [ca_feb1, wi_feb1]) [GetTrackingDataByState ''NY''])
        ''NY'') = []"
proof -
  have d: "\<forall>d\<in>set [ca_feb1, wi_feb1]. datetime_to_str (date d) \<noteq> ''2021-02-02''"
    by (simp add: sample_keys)
  have s: "\<forall>d\<in>set [ca_feb1, wi_feb1]. state d \<noteq> ''NY''"
    by (simp add: sample_attributes)
  from d lookup_miss_empty [of "[ca_feb1, wi_feb1]" "''2021-02-02''" "[GetTrackingDataByState ''NY'']"]
  have 1: "fst (get_tracking_data_by_date
        (run (CDCTrackingDatabase_init [ca_feb1, wi_feb1]) [GetTrackingDataByState ''NY''])
        ''2021-02-02'') = []" by blast
  from s lookup_miss_empty [of "[ca_feb1, wi_feb1]" "''NY''" "[GetTrackingDataByState ''NY'']"]
  have 2: "fst (get_tracking_data_by_state
        (run (CDCTrackingDatabase_init [ca_feb1, wi_feb1]) [GetTrackingDataByState ''NY''])
        ''NY'') = []" by blast
  from d s 1 2 show ?thesis by simp
qed

text \<open>
  C8. The date filter compares calendar days: \<^verbatim>\<open>get\<close> drops the time of day of the
  record's timestamp, so a record stamped on day \<open>d\<close> at any time of day satisfies the
  date-equals predicate for the reference day \<open>d'\<close> exactly when \<open>d = d'\<close>; with any
  comparator the filter compares the record's calendar day with the reference value.
  The timestamp itself would equal no calendar date.
\<close>

theorem date_filter_day_granularity:
  "get DateFilter (covid_data\<lparr>date := Datetime d h mi s us\<rparr>) = Inr (PyDate d)
     \<and> call \<lparr>cls = DateFilter, op = operator_eq, val = PyDate d'\<rparr>
         (covid_data\<lparr>date := Datetime d h mi s us\<rparr>) = Inr (d = d')
     \<and> call \<lparr>cls = DateFilter, op = o', val = v\<rparr> covid_data
         = o' (PyDate (datetime_date (date covid_data))) v
     \<and> operator_eq (PyDatetime (Datetime d h mi s us)) (PyDate d') = Inr False"
  by (simp add: call_def operator_eq_def)

text \<open>
  C9. Calling a filter of the base class \<^verbatim>\<open>AttributeFilter\<close> on any record fails
  with \<^verbatim>\<open>UnsupportedCriterionError\<close>, whatever its comparator and reference value.
  No filter that \<^verbatim>\<open>create_filters\<close> returns is of the base class, and calling one
  on any record never fails with that error.
\<close>

theorem unsupported_criterion_unreachable:
  "call \<lparr>cls = AttributeFilter, op = o', val = v\<rparr> covid_data = Inl UnsupportedCriterionError
     \<and> (\<forall>f\<in>set (create_filters c).
          cls f \<noteq> AttributeFilter \<and> call f covid_data \<noteq> Inl UnsupportedCriterionError)"
proof -
  have "call f covid_data \<noteq> Inl UnsupportedCriterionError"
    if "f \<in> set (create_filters c)" for f
  proof -
    from create_filters_member [OF that]
    have k: "cls f \<noteq> AttributeFilter" and o: "op f \<in> {operator_eq, operator_ge, operator_le}"
      by simp_all
    from k obtain a where "get (cls f) covid_data = Inr a" by (cases "cls f") simp_all
    with comparator_error [OF o] show ?thesis by (simp add: call_def)
  qed
  then show ?thesis using create_filters_member by (simp add: call_def)
qed

theorem unsupported_criterion_unreachable_witness:
  "set (create_filters (no_criteria\<lparr>arg_date := PyDate (Date 2021 2 1), arg_state := PyStr ''CA''\<rparr>))
     = {\<lparr>cls = DateFilter, op = operator_eq, val = PyDate (Date 2021 2 1)\<rparr>,
        \<lparr>cls = StateFilter, op = operator_eq, val = PyStr ''CA''\<rparr>}
   \<and> call \<lparr>cls = AttributeFilter, op = operator_eq, val = PyStr ''CA''\<rparr> ca_feb1
       = Inl UnsupportedCriterionError
   \<and> call \<lparr>cls = StateFilter, op = operator_eq, val = PyStr ''CA''\<rparr> ca_feb1
       \<noteq> Inl UnsupportedCriterionError
   \<and> call \<lparr>cls = DateFilter, op = operator_eq, val = PyDate (Date 2021 2 1)\<rparr> ca_feb1
       \<noteq> Inl UnsupportedCriterionError"
  using unsupported_criterion_unreachable [of operator_eq "PyStr ''CA''" ca_feb1
      "no_criteria\<lparr>arg_date := PyDate (Date 2021 2 1), arg_state := PyStr ''CA''\<rparr>"]
  by (simp add: create_filters_unfold no_criteria_def insert_commute)

text \<open>
  C10. For a negative \<open>n\<close>, \<^verbatim>\<open>limit\<close> returns the empty sequence: no index is
  below \<open>n\<close>, and only zero and \<^verbatim>\<open>None\<close> turn the truncation off.
\<close>

theorem limit_negative: "n < 0 \<Longrightarrow> limit xs (Some n) = []"
  by (simp add: limit_def limit_filter_take)

theorem limit_negative_witness:
  "(- 2 :: int) < 0 \<and> limit [ca_feb1, wi_feb1, ca_feb2] (Some (- 2)) = []"
  using limit_negative [of "- 2" "[ca_feb1, wi_feb1, ca_feb2]"] by simp

end
